theory Spec2Isabelle
  imports Complex_Main "HOL-Library.Char_ord" "HOL-Library.List_Lexorder"
begin

section \<open>Text primitives\<close>

text \<open>
  A Python \<open>str\<close> is modelled as a \<open>string\<close> whose characters stand for the code points
  0 to 255; \<open>length\<close> is \<open>len\<close> and offsets count characters. On this range
  \<open>str.lower\<close> moves the capital letters A-Z and the capital Latin-1 letters
  (0xC0-0xD6, 0xD8-0xDE) by 32 and leaves every other character alone.
\<close>

definition lower_char :: "char \<Rightarrow> char" where
  "lower_char c =
     (let n = (of_char c :: nat)
      in if (65 \<le> n \<and> n \<le> 90) \<or> (192 \<le> n \<and> n \<le> 214) \<or> (216 \<le> n \<and> n \<le> 222)
         then char_of (n + 32) else c)"

definition str_lower :: "string \<Rightarrow> string" where
  "str_lower s = map lower_char s"

text \<open>\<open>s.replace(' ', '_')\<close>.\<close>

definition replace_space :: "string \<Rightarrow> string" where
  "replace_space s = map (\<lambda>c. if c = CHR '' '' then CHR ''_'' else c) s"

text \<open>The character classes of \<open>re\<close> on code points below 256: \<open>\s\<close>, \<open>\d\<close> and \<open>\w\<close>.\<close>

definition py_isspace :: "char \<Rightarrow> bool" where
  "py_isspace c =
     (let n = (of_char c :: nat)
      in (9 \<le> n \<and> n \<le> 13) \<or> (28 \<le> n \<and> n \<le> 32) \<or> n = 133 \<or> n = 160)"

definition py_isdigit :: "char \<Rightarrow> bool" where
  "py_isdigit c = (let n = (of_char c :: nat) in 48 \<le> n \<and> n \<le> 57)"

definition py_isword :: "char \<Rightarrow> bool" where
  "py_isword c =
     (let n = (of_char c :: nat)
      in (48 \<le> n \<and> n \<le> 57) \<or> (65 \<le> n \<and> n \<le> 90) \<or> n = 95 \<or> (97 \<le> n \<and> n \<le> 122)
         \<or> n = 170 \<or> n = 178 \<or> n = 179 \<or> n = 181 \<or> n = 185 \<or> n = 186
         \<or> (188 \<le> n \<and> n \<le> 190) \<or> (192 \<le> n \<and> n \<le> 214)
         \<or> (216 \<le> n \<and> n \<le> 246) \<or> (248 \<le> n \<and> n \<le> 255))"

text \<open>\<open>str(i)\<close> for a non-negative integer.\<close>

fun str_nat :: "nat \<Rightarrow> string" where
  "str_nat n =
     (if n < 10 then [char_of (48 + n)]
      else str_nat (n div 10) @ [char_of (48 + n mod 10)])"

text \<open>
  Slices \<open>xs[i:j]\<close> and \<open>xs[:j]\<close> with Python's treatment of negative and
  out-of-range bounds.
\<close>

definition slice_bound :: "nat \<Rightarrow> int \<Rightarrow> nat" where
  "slice_bound n i = (if i < 0 then nat (max 0 (int n + i)) else min (nat i) n)"

definition py_slice :: "'a list \<Rightarrow> int \<Rightarrow> int \<Rightarrow> 'a list" where
  "py_slice xs i j =
     (let a = slice_bound (length xs) i; b = slice_bound (length xs) j
      in take (b - a) (drop a xs))"

definition py_prefix :: "'a list \<Rightarrow> int \<Rightarrow> 'a list" where
  "py_prefix xs j = take (slice_bound (length xs) j) xs"

text \<open>\<open>text.split()\<close> and \<open>' '.join(words)\<close>.\<close>

fun split_ws :: "string \<Rightarrow> string \<Rightarrow> string list" where
  "split_ws cur [] = (if cur = [] then [] else [cur])"
| "split_ws cur (c # cs) =
     (if py_isspace c then (if cur = [] then [] else [cur]) @ split_ws [] cs
      else split_ws (cur @ [c]) cs)"

definition py_split :: "string \<Rightarrow> string list" where
  "py_split s = split_ws [] s"

fun join_space :: "string list \<Rightarrow> string" where
  "join_space [] = []"
| "join_space [w] = w"
| "join_space (w # ws) = w @ '' '' @ join_space ws"

fun first_some :: "'a option list \<Rightarrow> 'a option" where
  "first_some [] = None"
| "first_some (None # xs) = first_some xs"
| "first_some (Some x # xs) = Some x"

section \<open>The regular expressions of the source\<close>

text \<open>
  The scene-marker patterns are sequences of single characters and character classes,
  some under a greedy \<open>{n,}\<close> or \<open>+\<close>. \<open>match_pieces ps s\<close> is the length of the match
  the backtracking matcher finds at the head of \<open>s\<close>: the longest repetition is tried
  first and given back one character at a time.
\<close>

datatype atom = Lit char | Space | Digit

datatype rep = Once | AtLeast nat

type_synonym piece = "atom \<times> rep"

fun atom_ok :: "atom \<Rightarrow> char \<Rightarrow> bool" where
  "atom_ok (Lit l) c = (c = l)"
| "atom_ok Space c = py_isspace c"
| "atom_ok Digit c = py_isdigit c"

fun match_pieces :: "piece list \<Rightarrow> string \<Rightarrow> nat option" where
  "match_pieces [] s = Some 0"
| "match_pieces ((a, Once) # ps) s =
     (case s of
        [] \<Rightarrow> None
      | c # cs \<Rightarrow> if atom_ok a c then map_option Suc (match_pieces ps cs) else None)"
| "match_pieces ((a, AtLeast lo) # ps) s =
     (let r = length (takeWhile (atom_ok a) s)
      in first_some
           (map (\<lambda>n. map_option ((+) n) (match_pieces ps (drop n s))) (rev [lo..<Suc r])))"

text \<open>
  \<open>[m.start() for m in re.finditer(p, text)]\<close>: matches do not overlap, the search
  resumes where the last match ended (\<open>skip\<close> counts the characters of a match still
  to pass). No pattern of the source matches the empty string.
\<close>

fun finditer_starts :: "piece list \<Rightarrow> nat \<Rightarrow> nat \<Rightarrow> string \<Rightarrow> nat list" where
  "finditer_starts ps pos skip [] = []"
| "finditer_starts ps pos skip (c # cs) =
     (if skip > 0 then finditer_starts ps (Suc pos) (skip - 1) cs
      else (case match_pieces ps (c # cs) of
              Some m \<Rightarrow> pos # finditer_starts ps (Suc pos) (m - 1) cs
            | None \<Rightarrow> finditer_starts ps (Suc pos) 0 cs))"

definition lit :: "string \<Rightarrow> piece list" where
  "lit s = map (\<lambda>c. (Lit c, Once)) s"

definition scene_patterns :: "piece list list" where
  "scene_patterns =
     [lit ''\<newline>\<newline>***\<newline>\<newline>'',
      lit ''\<newline>\<newline>---\<newline>\<newline>'',
      lit ''\<newline>\<newline>'' @ [(Space, AtLeast 3)] @ lit ''\<newline>\<newline>'',
      lit ''\<newline>\<newline>Chapter '' @ [(Digit, AtLeast 1)],
      lit ''\<newline>\<newline>'' @ [(Digit, AtLeast 1), (Lit CHR ''.'', Once)] @ lit ''\<newline>\<newline>'']"

text \<open>
  The word patterns \<open>\b(w1|w2|...)\b\<close> under \<open>re.I\<close>, the words being lower-case
  letters: \<open>\b\<close> holds between two positions when exactly one side is a word character
  (the outside of the text is not one), the alternatives are tried in order.
\<close>

definition opt_word :: "char option \<Rightarrow> bool" where
  "opt_word p = (case p of None \<Rightarrow> False | Some c \<Rightarrow> py_isword c)"

definition boundary :: "char option \<Rightarrow> char option \<Rightarrow> bool" where
  "boundary p n = (opt_word p \<noteq> opt_word n)"

definition head_opt :: "string \<Rightarrow> char option" where
  "head_opt s = (case s of [] \<Rightarrow> None | c # _ \<Rightarrow> Some c)"

definition ci_prefix :: "string \<Rightarrow> string \<Rightarrow> bool" where
  "ci_prefix w s = (length w \<le> length s \<and> map lower_char (take (length w) s) = w)"

definition word_match_at :: "string list \<Rightarrow> char option \<Rightarrow> string \<Rightarrow> nat option" where
  "word_match_at alts prev s =
     (if boundary prev (head_opt s)
      then first_some
             (map (\<lambda>w. if ci_prefix w s
                           \<and> boundary (head_opt (rev (take (length w) s)))
                                (head_opt (drop (length w) s))
                        then Some (length w) else None) alts)
      else None)"

fun findall_words :: "string list \<Rightarrow> char option \<Rightarrow> nat \<Rightarrow> string \<Rightarrow> string list" where
  "findall_words alts prev skip [] = []"
| "findall_words alts prev skip (c # cs) =
     (if skip > 0 then findall_words alts (Some c) (skip - 1) cs
      else (case word_match_at alts prev (c # cs) of
              Some m \<Rightarrow> take m (c # cs) # findall_words alts (Some c) (m - 1) cs
            | None \<Rightarrow> findall_words alts (Some c) 0 cs))"

text \<open>\<open>re.findall(p, text, re.I)\<close> and the truth value of \<open>re.search(p, text, re.I)\<close>.\<close>

definition re_findall_words :: "string list \<Rightarrow> string \<Rightarrow> string list" where
  "re_findall_words alts text = findall_words alts None 0 text"

definition re_search_words :: "string list \<Rightarrow> string \<Rightarrow> bool" where
  "re_search_words alts text = (re_findall_words alts text \<noteq> [])"

section \<open>Errors\<close>

datatype error = KeyError | ValueError | AttributeError | JSONDecodeError | OperationalError

section \<open>Data classes\<close>

record MicroSegment =
  micro_id :: string
  micro_chapter :: string
  sent_index :: int
  beat_index :: int
  micro_text :: string
  micro_start_char :: int
  micro_end_char :: int
  micro_embedding_id :: "int option"

record MesoSegment =
  meso_id :: string
  meso_chapter :: string
  meso_start_char :: int
  meso_end_char :: int
  meso_text :: string
  micro_ids :: "string list"
  scene_type :: "string option"
  meso_embedding_id :: "int option"

record MacroSegment =
  macro_id :: string
  chapter_or_arc :: string
  macro_start_char :: int
  macro_end_char :: int
  macro_text :: string
  meso_ids :: "string list"
  arc_type :: "string option"
  macro_embedding_id :: "int option"

text \<open>An entity of the recogniser: \<open>ent.label_\<close>, \<open>ent.text\<close>, \<open>ent.start_char\<close>.\<close>

record Ent =
  label :: string
  ent_text :: string
  ent_start_char :: int

text \<open>
  The recogniser \<open>nlp\<close> is a collaborator: every function that calls it takes it as
  the argument \<open>ner\<close>, from a text to the list \<open>doc.ents\<close>.
\<close>

type_synonym recogniser = "string \<Rightarrow> Ent list"

section \<open>MultiScaleSegmenter\<close>

record Segmenter =
  meso_window :: "int \<times> int"
  overlap :: int

definition default_segmenter :: Segmenter where
  "default_segmenter = \<lparr>meso_window = (200, 800), overlap = 50\<rparr>"

fun location_breaks :: "string option \<Rightarrow> Ent list \<Rightarrow> int list" where
  "location_breaks last_location [] = []"
| "location_breaks last_location (e # es) =
     (if label e = ''LOC'' \<or> label e = ''GPE''
      then (if (case last_location of None \<Rightarrow> False | Some l \<Rightarrow> l \<noteq> [] \<and> ent_text e \<noteq> l)
            then [ent_start_char e] else [])
           @ location_breaks (Some (ent_text e)) es
      else location_breaks last_location es)"

definition detect_scene_breaks :: "recogniser \<Rightarrow> string \<Rightarrow> int list" where
  "detect_scene_breaks ner text =
     (let marker_breaks =
            concat (map (\<lambda>p. map int (finditer_starts p 0 0 text)) scene_patterns);
          doc = ner (if length text > 5000 then take 5000 text else text)
      in sort (remdups ([0] @ marker_breaks @ location_breaks None doc)))"

text \<open>
  \<open>classify_scene_type\<close>. The quotient of the two integers is a float in the source and
  an exact rational here; \<open>["\'"]\<close> is the class of the double and the single quote.
\<close>

definition is_quote :: "char \<Rightarrow> bool" where
  "is_quote c = (c = CHR 0x22 \<or> c = CHR 0x27)"

definition action_verbs :: "string list" where
  "action_verbs = [''ran'', ''jumped'', ''fought'', ''grabbed'', ''threw'', ''moved'', ''walked'']"

definition dialogue_ratio :: "string \<Rightarrow> rat" where
  "dialogue_ratio text = of_nat (length (filter is_quote text)) / of_nat (max (length text) 1)"

definition action_words :: "string \<Rightarrow> nat" where
  "action_words text = length (re_findall_words action_verbs text)"

definition classify_scene_type :: "string \<Rightarrow> string" where
  "classify_scene_type text =
     (if dialogue_ratio text > 5 / 100 then ''dialogue''
      else if action_words text > 5 then ''action''
      else if length text < 500 then ''transition''
      else ''description'')"

text \<open>The micro segments lying inside \<open>[start, end]\<close>, as the two list comprehensions select them.\<close>

definition micro_ids_within :: "MicroSegment list \<Rightarrow> int \<Rightarrow> int \<Rightarrow> string list" where
  "micro_ids_within micro_segments start end' =
     map micro_id
       (filter (\<lambda>m. micro_start_char m \<ge> start \<and> micro_end_char m \<le> end') micro_segments)"

text \<open>\<open>range(0, n, step)\<close>; a zero step raises before the loop.\<close>

definition py_range_step :: "nat \<Rightarrow> int \<Rightarrow> error + int list" where
  "py_range_step n step =
     (if step = 0 then Inl ValueError
      else if step < 0 then Inr []
      else Inr (map (\<lambda>i. int i * step) [0..<nat ((int n + step - 1) div step)]))"

definition sliding_window ::
  "string \<Rightarrow> MicroSegment list \<Rightarrow> string list \<Rightarrow> int \<Rightarrow> nat \<times> int \<Rightarrow> MesoSegment list" where
  "sliding_window chapter micro_segments words window_size w =
     (let i = fst w; start_idx = snd w;
          end_idx = min (start_idx + window_size) (int (length words));
          window_text = join_space (py_slice words start_idx end_idx);
          start_char = (if start_idx > 0 then int (length (join_space (py_prefix words start_idx)))
                        else 0);
          end_char = int (length (join_space (py_prefix words end_idx)));
          ids = micro_ids_within micro_segments start_char end_char
      in if ids \<noteq> []
         then [\<lparr>meso_id = ''meso_'' @ chapter @ ''_w'' @ str_nat i,
                meso_chapter = chapter,
                meso_start_char = start_char,
                meso_end_char = end_char,
                meso_text = window_text,
                micro_ids = ids,
                scene_type = Some (classify_scene_type window_text),
                meso_embedding_id = None\<rparr>]
         else [])"

definition create_sliding_windows ::
  "Segmenter \<Rightarrow> string \<Rightarrow> string \<Rightarrow> MicroSegment list \<Rightarrow> error + MesoSegment list" where
  "create_sliding_windows self text chapter micro_segments =
     (let words = py_split text;
          window_size = snd (meso_window self);
          step = window_size - overlap self
      in (case py_range_step (length words) step of
            Inl e \<Rightarrow> Inl e
          | Inr starts \<Rightarrow>
              Inr (concat (map (sliding_window chapter micro_segments words window_size)
                             (enumerate 0 starts)))))"

text \<open>One pass of the loop over \<open>range(len(scene_breaks) - 1)\<close> in \<open>create_meso_segments\<close>.\<close>

definition scene_window ::
  "string \<Rightarrow> string \<Rightarrow> MicroSegment list \<Rightarrow> int list \<Rightarrow> nat \<Rightarrow> MesoSegment list" where
  "scene_window text chapter micro_segments scene_breaks i =
     (let start = scene_breaks ! i;
          end' = (if i + 1 < length scene_breaks then scene_breaks ! (i + 1)
                  else int (length text));
          ids = micro_ids_within micro_segments start end'
      in if ids \<noteq> []
         then [\<lparr>meso_id = ''meso_'' @ chapter @ ''_'' @ str_nat i,
                meso_chapter = chapter,
                meso_start_char = start,
                meso_end_char = end',
                meso_text = py_slice text start end',
                micro_ids = ids,
                scene_type = Some (classify_scene_type (py_slice text start end')),
                meso_embedding_id = None\<rparr>]
         else [])"

definition create_meso_segments ::
  "Segmenter \<Rightarrow> recogniser \<Rightarrow> string \<Rightarrow> string \<Rightarrow> MicroSegment list
     \<Rightarrow> error + MesoSegment list" where
  "create_meso_segments self ner text chapter micro_segments =
     (let scene_breaks = detect_scene_breaks ner text
      in if length scene_breaks > 1
         then Inr (concat (map (scene_window text chapter micro_segments scene_breaks)
                             [0..<length scene_breaks - 1]))
         else create_sliding_windows self text chapter micro_segments)"

section \<open>The narrative graph store\<close>

text \<open>\<open>load_character_aliases\<close>: the built-in dictionary, in source order.\<close>

definition load_character_aliases :: "(string \<times> string) list" where
  "load_character_aliases =
     [(''tom'', ''Thomas''),
      (''tommy'', ''Thomas''),
      (''robert'', ''Robert''),
      (''bob'', ''Robert''),
      (''miranda'', ''Miranda'')]"

text \<open>
  \<open>canonicalize(name, node_type)\<close>, with \<open>self.character_aliases\<close> as first argument:
  \<open>aliases.get(name.lower(), name)\<close> for characters, the name itself otherwise.
\<close>

definition canonicalize :: "(string \<times> string) list \<Rightarrow> string \<Rightarrow> string \<Rightarrow> string" where
  "canonicalize aliases name node_type =
     (if node_type = ''character''
      then (case map_of aliases (str_lower name) of Some v \<Rightarrow> v | None \<Rightarrow> name)
      else name)"


text \<open>
  The values \<open>json.loads\<close> returns. A \<open>TEXT\<close> column holding JSON is modelled by the
  value it decodes to: \<open>NoText\<close> is \<open>NULL\<close> or the empty string (both falsy in
  Python), \<open>BadText\<close> a text that \<open>json.loads\<close> rejects.
\<close>

datatype json =
    JNull
  | JBool bool
  | JNum rat
  | JStr string
  | JArr "json list"
  | JObj "(string \<times> json) list"

datatype json_text = NoText | BadText | JsonText json

record GraphNode =
  node_id :: string
  node_type :: string
  canonical_name :: string
  attributes :: "(string \<times> json) list"
  frequency :: int
  centrality :: "rat option"

text \<open>The three tables of \<open>init_schema\<close>, each a list of rows in insertion order.\<close>

record node_row =
  n_node_id :: string
  n_node_type :: string
  n_canonical_name :: string
  n_attributes :: json_text
  n_frequency :: int
  n_centrality :: "rat option"

record edge_row =
  e_edge_id :: string
  e_from_node :: string
  e_to_node :: string
  e_edge_type :: string
  e_weight :: rat
  e_evidence :: json_text

record link_row =
  l_segment_id :: string
  l_node_id :: string
  l_segment_scale :: string
  l_confidence :: rat

record graph_db =
  nodes :: "node_row list"
  edges :: "edge_row list"
  segment_nodes :: "link_row list"

definition empty_db :: graph_db where
  "empty_db = \<lparr>nodes = [], edges = [], segment_nodes = []\<rparr>"

text \<open>\<open>NarrativeGraphManager\<close>: the connection is the database it reads and writes.\<close>

record GraphManager =
  conn :: graph_db
  character_aliases :: "(string \<times> string) list"

definition new_graph_manager :: "graph_db \<Rightarrow> GraphManager" where
  "new_graph_manager db = \<lparr>conn = db, character_aliases = load_character_aliases\<rparr>"

text \<open>\<open>extract_entities\<close>: the named entities in document order, then the motifs in dictionary order.\<close>

definition motif_patterns :: "(string \<times> string list) list" where
  "motif_patterns =
     [(''frost'', [''frost'', ''frozen'', ''ice'', ''icy'', ''cold'']),
      (''purple'', [''purple'', ''violet'', ''lavender'', ''mauve'']),
      (''water'', [''water'', ''rain'', ''river'', ''stream'', ''ocean'', ''sea'']),
      (''darkness'', [''dark'', ''darkness'', ''shadow'', ''night'', ''black''])]"

fun join_bar :: "string list \<Rightarrow> string" where
  "join_bar [] = []"
| "join_bar [w] = w"
| "join_bar (w # ws) = w @ ''|'' @ join_bar ws"

definition pattern_source :: "string list \<Rightarrow> string" where
  "pattern_source alts = [CHR 0x5C] @ ''b('' @ join_bar alts @ '')'' @ [CHR 0x5C] @ ''b''"

definition entity_node :: "(string \<times> string) list \<Rightarrow> Ent \<Rightarrow> GraphNode" where
  "entity_node aliases e =
     (let ntype = (if label e = ''PERSON'' then ''character'' else ''setting'');
          canonical = canonicalize aliases (ent_text e) ntype
      in \<lparr>node_id = ntype @ ''_'' @ replace_space (str_lower canonical),
          node_type = ntype,
          canonical_name = canonical,
          attributes = [(''original_text'', JStr (ent_text e)), (''label'', JStr (label e))],
          frequency = 1,
          centrality = None\<rparr>)"

definition motif_node :: "string \<times> string list \<Rightarrow> GraphNode" where
  "motif_node m =
     \<lparr>node_id = ''motif_'' @ fst m,
      node_type = ''motif'',
      canonical_name = fst m,
      attributes = [(''pattern'', JStr (pattern_source (snd m)))],
      frequency = 1,
      centrality = None\<rparr>"

definition extract_entities ::
  "recogniser \<Rightarrow> GraphManager \<Rightarrow> string \<Rightarrow> string \<Rightarrow> string \<Rightarrow> GraphNode list" where
  "extract_entities ner self text segment_id scale =
     map (entity_node (character_aliases self))
       (filter (\<lambda>e. label e = ''PERSON'' \<or> label e = ''LOC'' \<or> label e = ''ORG'') (ner text))
     @ map motif_node (filter (\<lambda>m. re_search_words (snd m) text) motif_patterns)"

text \<open>
  \<open>INSERT INTO nodes ... ON CONFLICT(node_id) DO UPDATE SET frequency = frequency + 1\<close>:
  the row with the primary key is updated in place, a new key is appended.
\<close>

definition upsert_node :: "node_row list \<Rightarrow> GraphNode \<Rightarrow> node_row list" where
  "upsert_node rows entity =
     (if node_id entity \<in> set (map n_node_id rows)
      then map (\<lambda>r. if n_node_id r = node_id entity
                     then r\<lparr>n_frequency := n_frequency r + 1\<rparr> else r) rows
      else rows @ [\<lparr>n_node_id = node_id entity,
                     n_node_type = node_type entity,
                     n_canonical_name = canonical_name entity,
                     n_attributes = JsonText (JObj (attributes entity)),
                     n_frequency = 1,
                     n_centrality = None\<rparr>])"

text \<open>\<open>INSERT OR IGNORE INTO segment_nodes\<close>, primary key \<open>(segment_id, node_id)\<close>.\<close>

definition insert_link :: "link_row list \<Rightarrow> string \<Rightarrow> string \<Rightarrow> string \<Rightarrow> link_row list" where
  "insert_link rows seg nid scale =
     (if (seg, nid) \<in> set (map (\<lambda>r. (l_segment_id r, l_node_id r)) rows) then rows
      else rows @ [\<lparr>l_segment_id = seg, l_node_id = nid, l_segment_scale = scale,
                     l_confidence = 1\<rparr>])"

fun upsert_entities :: "graph_db \<Rightarrow> string \<Rightarrow> string \<Rightarrow> GraphNode list \<Rightarrow> graph_db" where
  "upsert_entities db seg scale [] = db"
| "upsert_entities db seg scale (entity # entities) =
     upsert_entities
       (db\<lparr>nodes := upsert_node (nodes db) entity,
           segment_nodes := insert_link (segment_nodes db) seg (node_id entity) scale\<rparr>)
       seg scale entities"

text \<open>
  The pairs \<open>(node_ids[i], node_ids[j])\<close> of the nested loop
  \<open>for i in range(n): for j in range(i + 1, n)\<close>, in loop order.
\<close>

fun index_pairs :: "'a list \<Rightarrow> ('a \<times> 'a) list" where
  "index_pairs [] = []"
| "index_pairs (x # xs) = map (Pair x) xs @ index_pairs xs"

definition cooccur_id :: "string \<times> string \<Rightarrow> string" where
  "cooccur_id p = fst p @ ''_'' @ snd p @ ''_cooccur''"

text \<open>\<open>INSERT INTO edges ... ON CONFLICT(edge_id) DO UPDATE SET weight = weight + 1.0\<close>.\<close>

definition upsert_edge :: "string \<Rightarrow> string \<Rightarrow> edge_row list \<Rightarrow> string \<times> string \<Rightarrow> edge_row list" where
  "upsert_edge seg scale rows p =
     (if cooccur_id p \<in> set (map e_edge_id rows)
      then map (\<lambda>r. if e_edge_id r = cooccur_id p then r\<lparr>e_weight := e_weight r + 1\<rparr> else r)
             rows
      else rows @ [\<lparr>e_edge_id = cooccur_id p,
                     e_from_node = fst p,
                     e_to_node = snd p,
                     e_edge_type = ''cooccurrence'',
                     e_weight = 1,
                     e_evidence = JsonText (JObj [(''segment'', JStr seg), (''scale'', JStr scale)])\<rparr>])"

definition degree :: "edge_row list \<Rightarrow> string \<Rightarrow> nat" where
  "degree es nid = length (filter (\<lambda>e. e_from_node e = nid \<or> e_to_node e = nid) es)"

definition update_centrality :: "graph_db \<Rightarrow> graph_db" where
  "update_centrality db =
     db\<lparr>nodes := map (\<lambda>n. n\<lparr>n_centrality := Some (of_nat (degree (edges db) (n_node_id n)))\<rparr>)
                   (nodes db)\<rparr>"

text \<open>A segment of any scale, as \<open>update_graph\<close> and \<open>index_segments\<close> receive it.\<close>

datatype segment = Micro MicroSegment | Meso MesoSegment | Macro MacroSegment

fun seg_id :: "segment \<Rightarrow> string" where
  "seg_id (Micro m) = micro_id m"
| "seg_id (Meso m) = meso_id m"
| "seg_id (Macro m) = macro_id m"

fun seg_text :: "segment \<Rightarrow> string" where
  "seg_text (Micro m) = micro_text m"
| "seg_text (Meso m) = meso_text m"
| "seg_text (Macro m) = macro_text m"

fun set_embedding_id :: "int \<Rightarrow> segment \<Rightarrow> segment" where
  "set_embedding_id i (Micro m) = Micro (m\<lparr>micro_embedding_id := Some i\<rparr>)"
| "set_embedding_id i (Meso m) = Meso (m\<lparr>meso_embedding_id := Some i\<rparr>)"
| "set_embedding_id i (Macro m) = Macro (m\<lparr>macro_embedding_id := Some i\<rparr>)"

definition update_graph :: "recogniser \<Rightarrow> GraphManager \<Rightarrow> segment \<Rightarrow> string \<Rightarrow> GraphManager" where
  "update_graph ner self segment scale =
     (let entities = extract_entities ner self (seg_text segment) (seg_id segment) scale;
          db1 = upsert_entities (conn self) (seg_id segment) scale entities;
          node_ids = map node_id entities;
          db2 = db1\<lparr>edges := fold (\<lambda>p rows. upsert_edge (seg_id segment) scale rows p)
                                 (index_pairs node_ids) (edges db1)\<rparr>
      in self\<lparr>conn := update_centrality db2\<rparr>)"







text \<open>
  \<open>find_continuity_violations\<close>. The rows of the join, ordered by segment id (rows with the
  same segment id keep the order of the join).
\<close>

record violation =
  v_type :: string
  v_character :: string
  v_segment :: string
  v_details :: string

definition continuity_rows :: "graph_db \<Rightarrow> string \<Rightarrow> (string \<times> string \<times> json_text) list" where
  "continuity_rows db character =
     sort_key fst
       (concat (map (\<lambda>s. map (\<lambda>n. (l_segment_id s, l_segment_scale s, n_attributes n))
                             (filter (\<lambda>n. l_node_id s = n_node_id n
                                           \<and> n_canonical_name n = character
                                           \<and> n_node_type n = ''character'')
                                (nodes db)))
                  (segment_nodes db)))"

text \<open>\<open>json.loads(row['attributes']) if row['attributes'] else {}\<close>.\<close>

definition load_attributes :: "json_text \<Rightarrow> error + json" where
  "load_attributes t =
     (case t of NoText \<Rightarrow> Inr (JObj []) | BadText \<Rightarrow> Inl JSONDecodeError | JsonText j \<Rightarrow> Inr j)"

text \<open>The truth value Python gives a decoded value.\<close>

fun truthy :: "json \<Rightarrow> bool" where
  "truthy JNull = False"
| "truthy (JBool b) = b"
| "truthy (JNum x) = (x \<noteq> 0)"
| "truthy (JStr s) = (s \<noteq> [])"
| "truthy (JArr xs) = (xs \<noteq> [])"
| "truthy (JObj kvs) = (kvs \<noteq> [])"

text \<open>\<open>v.get('status') == s\<close>: only a dictionary has \<open>get\<close>.\<close>

fun status_is :: "json \<Rightarrow> string \<Rightarrow> error + bool" where
  "status_is (JObj kvs) s = Inr (map_of kvs ''status'' = Some (JStr s))"
| "status_is _ s = Inl AttributeError"

definition is_resurrection :: "json \<Rightarrow> json \<Rightarrow> error + bool" where
  "is_resurrection prev_attributes curr_attributes =
     (case status_is prev_attributes ''dead'' of
        Inl e \<Rightarrow> Inl e
      | Inr False \<Rightarrow> Inr False
      | Inr True \<Rightarrow> status_is curr_attributes ''alive'')"

fun scan_rows ::
  "string \<Rightarrow> json option \<Rightarrow> (string \<times> string \<times> json_text) list \<Rightarrow> error + violation list" where
  "scan_rows character prev_attributes [] = Inr []"
| "scan_rows character prev_attributes (row # rows) =
     (case load_attributes (snd (snd row)) of
        Inl e \<Rightarrow> Inl e
      | Inr curr_attributes \<Rightarrow>
          (case (case prev_attributes of
                   None \<Rightarrow> Inr False
                 | Some p \<Rightarrow> if truthy p then is_resurrection p curr_attributes else Inr False) of
             Inl e \<Rightarrow> Inl e
           | Inr flagged \<Rightarrow>
               (case scan_rows character (Some curr_attributes) rows of
                  Inl e \<Rightarrow> Inl e
                | Inr vs \<Rightarrow>
                    Inr ((if flagged
                          then [\<lparr>v_type = ''resurrection'',
                                 v_character = character,
                                 v_segment = fst row,
                                 v_details = ''Character appears alive after being dead''\<rparr>]
                          else []) @ vs))))"

definition find_continuity_violations :: "GraphManager \<Rightarrow> string \<Rightarrow> error + violation list" where
  "find_continuity_violations self character =
     scan_rows character None (continuity_rows (conn self) character)"

section \<open>FractalRetriever\<close>

text \<open>
  The collaborators: the recogniser, the embedding model followed by \<open>normalize_L2\<close>
  (one vector per text), and the search of an index, which returns the pairs
  \<open>zip(D[0], I[0])\<close> for a query vector and a count. Scores and weights are floats in the
  source and rationals here.
\<close>

type_synonym vec = "rat list"

type_synonym faiss_index = "vec list"

record collaborators =
  nlp :: recogniser
  encode :: "string \<Rightarrow> vec"
  index_search :: "faiss_index \<Rightarrow> vec \<Rightarrow> int \<Rightarrow> (rat \<times> int) list"

text \<open>
  The retriever with the files it reads and writes: \<open>index_files\<close> maps a path to the
  index stored there, \<open>metadata_files\<close> to the saved metadata array. \<open>index.ntotal\<close>
  is the length of the index.
\<close>

record FractalRetriever =
  indices :: "string \<rightharpoonup> faiss_index"
  metadata :: "string \<rightharpoonup> segment list"
  graph_manager :: GraphManager
  index_files :: "string \<rightharpoonup> faiss_index"
  metadata_files :: "string \<rightharpoonup> segment list"

definition new_retriever ::
  "(string \<rightharpoonup> faiss_index) \<Rightarrow> (string \<rightharpoonup> segment list) \<Rightarrow> graph_db \<Rightarrow> FractalRetriever" where
  "new_retriever files meta_files db =
     \<lparr>indices = Map.empty,
      metadata = Map.empty,
      graph_manager = new_graph_manager db,
      index_files = files,
      metadata_files = meta_files\<rparr>"

definition index_paths :: "(string \<times> string) list" where
  "index_paths =
     [(''micro'', ''micro_faiss.index''),
      (''meso'', ''meso_faiss.index''),
      (''macro'', ''macro_faiss.index'')]"

definition metadata_path :: "string \<Rightarrow> string" where
  "metadata_path scale = ''metadata_'' @ scale @ ''.npy''"

definition load_or_create_index :: "FractalRetriever \<Rightarrow> string \<Rightarrow> error + faiss_index" where
  "load_or_create_index self scale =
     (case map_of index_paths scale of
        None \<Rightarrow> Inl KeyError
      | Some index_path \<Rightarrow>
          (case index_files self index_path of
             Some stored \<Rightarrow> Inr stored
           | None \<Rightarrow> Inr []))"

text \<open>
  \<open>index_segments\<close> returns the retriever after the call and the exception, if one was
  raised: a scale outside the three paths raises in \<open>load_or_create_index\<close> before
  anything is stored, or at \<open>index_paths[scale]\<close> before anything is written.
\<close>

definition index_segments ::
  "collaborators \<Rightarrow> FractalRetriever \<Rightarrow> segment list \<Rightarrow> string
     \<Rightarrow> FractalRetriever \<times> error option" where
  "index_segments env self segments scale =
     (case (case indices self scale of
              Some index \<Rightarrow> Inr index
            | None \<Rightarrow> load_or_create_index self scale) of
        Inl e \<Rightarrow> (self, Some e)
      | Inr index0 \<Rightarrow>
          (let texts = map seg_text segments;
               embeddings = map (encode env) texts;
               start_id = int (length index0);
               index = index0 @ embeddings;
               meta0 = (case metadata self scale of Some m \<Rightarrow> m | None \<Rightarrow> []);
               stamped = map (\<lambda>p. set_embedding_id (start_id + int (fst p)) (snd p))
                           (enumerate 0 segments);
               meta = meta0 @ stamped;
               self1 = self\<lparr>indices := (indices self)(scale \<mapsto> index),
                            metadata := (metadata self)(scale \<mapsto> meta)\<rparr>
           in (case map_of index_paths scale of
                 None \<Rightarrow> (self1, Some KeyError)
               | Some index_path \<Rightarrow>
                   (let self2 = self1\<lparr>index_files := (index_files self1)(index_path \<mapsto> index),
                                      metadata_files :=
                                        (metadata_files self1)(metadata_path scale \<mapsto> meta)\<rparr>
                    in if scale = ''meso''
                       then (self2\<lparr>graph_manager :=
                                      fold (\<lambda>seg gm. update_graph (nlp env) gm seg scale)
                                        stamped (graph_manager self2)\<rparr>, None)
                       else (self2, None)))))"

text \<open>The first lines of \<open>fractal_retrieve\<close>: the weights the loop over the scales uses.\<close>

definition default_weights :: "(string \<times> rat) list" where
  "default_weights = [(''micro'', 1), (''meso'', 6 / 10), (''macro'', 3 / 10)]"

definition effective_weights ::
  "string option \<Rightarrow> (string \<times> rat) list option \<Rightarrow> (string \<times> rat) list" where
  "effective_weights policy scale_weights =
     (let after_policy =
            (case policy of
               None \<Rightarrow> scale_weights
             | Some p \<Rightarrow>
                 if p = [] then scale_weights
                 else if p = ''line-fix''
                      then Some [(''micro'', 9 / 10), (''meso'', 1 / 10), (''macro'', 0)]
                 else if p = ''scene-fix''
                      then Some [(''micro'', 2 / 10), (''meso'', 7 / 10), (''macro'', 1 / 10)]
                 else if p = ''thematic''
                      then Some [(''micro'', 1 / 10), (''meso'', 3 / 10), (''macro'', 6 / 10)]
                 else scale_weights)
      in (case after_policy of
            None \<Rightarrow> default_weights
          | Some w \<Rightarrow> if w = [] then default_weights else w))"

text \<open>
  \<open>compute_graph_boost\<close>; \<open>fetchone\<close> takes the first row of the join, which the
  model lists in table order (the engine may return another row first when a segment is
  linked to several nodes of the same canonical name).
\<close>

definition centrality_rows :: "graph_db \<Rightarrow> string \<Rightarrow> string \<Rightarrow> rat option list" where
  "centrality_rows db seg canonical =
     concat (map (\<lambda>s. map n_centrality
                         (filter (\<lambda>n. l_node_id s = n_node_id n
                                       \<and> l_segment_id s = seg \<and> n_canonical_name n = canonical)
                            (nodes db)))
               (segment_nodes db))"

definition entity_boost :: "GraphManager \<Rightarrow> string \<Rightarrow> string \<Rightarrow> rat" where
  "entity_boost gm seg entity =
     (let canonical = canonicalize (character_aliases gm) entity ''character''
      in (case centrality_rows (conn gm) seg canonical of
            [] \<Rightarrow> 0
          | None # _ \<Rightarrow> 0
          | Some c # _ \<Rightarrow> if c \<noteq> 0 then min (c / 100) (1 / 2) else 0))"

definition compute_graph_boost :: "collaborators \<Rightarrow> FractalRetriever \<Rightarrow> segment \<Rightarrow> string \<Rightarrow> rat" where
  "compute_graph_boost env self segment query =
     (let query_entities =
            map ent_text (filter (\<lambda>e. label e = ''PERSON'' \<or> label e = ''LOC'') (nlp env query))
      in if query_entities = [] then 0
         else fold (\<lambda>entity boost. boost + entity_boost (graph_manager self) (seg_id segment) entity)
                query_entities 0)"

record retrieval =
  r_scale :: string
  r_score :: rat
  r_segment :: segment
  r_graph_boost :: rat
  r_context_boost :: rat

text \<open>\<open>int(x)\<close> truncates towards zero.\<close>

definition py_int :: "rat \<Rightarrow> int" where
  "py_int x = (if x \<ge> 0 then \<lfloor>x\<rfloor> else \<lceil>x\<rceil>)"

text \<open>
  One pass of the loop over \<open>scale_weights.items()\<close>. The count \<open>search_k\<close> is
  computed on exact rationals, where the source truncates a float product, and what the
  search does with a count is left to the collaborator \<open>index_search\<close>.
\<close>

definition scale_candidates ::
  "collaborators \<Rightarrow> FractalRetriever \<Rightarrow> string \<Rightarrow> vec \<Rightarrow> int \<Rightarrow> string \<times> rat \<Rightarrow> retrieval list" where
  "scale_candidates env self query q_emb k sw =
     (let scale = fst sw; weight = snd sw
      in if weight = 0 then []
         else (case indices self scale of
                 None \<Rightarrow> []
               | Some index \<Rightarrow>
                   (let meta = (case metadata self scale of Some m \<Rightarrow> m | None \<Rightarrow> [])
                    in if length index = 0 then []
                       else (let search_k = min (py_int (of_int k * weight * 2)) (int (length index))
                             in concat
                                  (map (\<lambda>hit.
                                          if snd hit < 0 \<or> snd hit \<ge> int (length meta) then []
                                          else (let seg = meta ! nat (snd hit);
                                                    graph_boost = compute_graph_boost env self seg query;
                                                    context_boost = 0
                                                in [\<lparr>r_scale = scale,
                                                     r_score = weight * fst hit
                                                               + (2 / 10) * graph_boost
                                                               + (1 / 10) * context_boost,
                                                     r_segment = seg,
                                                     r_graph_boost = graph_boost,
                                                     r_context_boost = context_boost\<rparr>]))
                                     (index_search env index q_emb search_k))))))"

text \<open>
  \<open>fractal_retrieve\<close>: the candidates of all scales, sorted by descending score (the sort
  is stable), cut to \<open>results[:k]\<close>.
\<close>

definition fractal_retrieve ::
  "collaborators \<Rightarrow> FractalRetriever \<Rightarrow> string \<Rightarrow> int \<Rightarrow> (string \<times> rat) list option
     \<Rightarrow> string option \<Rightarrow> retrieval list" where
  "fractal_retrieve env self query k scale_weights policy =
     (let weights = effective_weights policy scale_weights;
          q_emb = encode env query;
          results = concat (map (scale_candidates env self query q_emb k) weights)
      in py_prefix (sort_key (\<lambda>r. - r_score r) results) k)"

text \<open>A series of \<open>index_segments\<close> calls on one retriever; an exception ends a call, not the series.\<close>

fun run_index_calls ::
  "collaborators \<Rightarrow> FractalRetriever \<Rightarrow> (segment list \<times> string) list \<Rightarrow> FractalRetriever" where
  "run_index_calls env self [] = self"
| "run_index_calls env self (c # cs) =
     run_index_calls env (fst (index_segments env self (fst c) (snd c))) cs"

section \<open>Reading the tables\<close>

text \<open>
  The frequency stored in the node row with a given id and the weight stored in the edge
  row with a given id; 0 when the table has no such row.
\<close>

definition node_frequency :: "node_row list \<Rightarrow> string \<Rightarrow> int" where
  "node_frequency rows nid =
     (case find (\<lambda>r. n_node_id r = nid) rows of None \<Rightarrow> 0 | Some r \<Rightarrow> n_frequency r)"

definition stored_frequency :: "graph_db \<Rightarrow> string \<Rightarrow> int" where
  "stored_frequency db nid = node_frequency (nodes db) nid"

definition edge_weight :: "edge_row list \<Rightarrow> string \<Rightarrow> rat" where
  "edge_weight rows eid =
     (case find (\<lambda>r. e_edge_id r = eid) rows of None \<Rightarrow> 0 | Some r \<Rightarrow> e_weight r)"

definition stored_weight :: "graph_db \<Rightarrow> string \<Rightarrow> rat" where
  "stored_weight db eid = edge_weight (edges db) eid"

text \<open>An edge row as the co-occurrence loop of \<open>update_graph\<close> writes it.\<close>

definition cooccurrence_row :: "edge_row \<Rightarrow> bool" where
  "cooccurrence_row r =
     (e_edge_id r = e_from_node r @ ''_'' @ e_to_node r @ ''_cooccur''
      \<and> e_edge_type r = ''cooccurrence'')"

text \<open>The node ids \<open>update_graph\<close> collects for a segment, in extraction order.\<close>

definition extracted_ids :: "recogniser \<Rightarrow> GraphManager \<Rightarrow> segment \<Rightarrow> string \<Rightarrow> string list" where
  "extracted_ids ner self segment scale =
     map node_id (extract_entities ner self (seg_text segment) (seg_id segment) scale)"

text \<open>The loop \<open>for seg in segments: update_graph(seg, scale)\<close> of \<open>index_segments\<close>.\<close>

definition update_graph_all ::
  "recogniser \<Rightarrow> GraphManager \<Rightarrow> segment list \<Rightarrow> string \<Rightarrow> GraphManager" where
  "update_graph_all ner self segments scale =
     fold (\<lambda>seg gm. update_graph ner gm seg scale) segments self"

section \<open>Example inputs\<close>

definition no_entities :: recogniser where
  "no_entities text = []"

definition two_scene_text :: string where
  "two_scene_text = ''Tom ran.\<newline>\<newline>***\<newline>\<newline>Tom slept.''"

definition micro_before :: MicroSegment where
  "micro_before =
     \<lparr>micro_id = ''ch1_s0'', micro_chapter = ''ch1'', sent_index = 0, beat_index = 0,
      micro_text = ''Tom ran.'', micro_start_char = 0, micro_end_char = 8,
      micro_embedding_id = None\<rparr>"

definition micro_after :: MicroSegment where
  "micro_after =
     \<lparr>micro_id = ''ch1_s1'', micro_chapter = ''ch1'', sent_index = 1, beat_index = 0,
      micro_text = ''Tom slept.'', micro_start_char = 15, micro_end_char = 25,
      micro_embedding_id = None\<rparr>"

definition scene :: "string \<Rightarrow> string \<Rightarrow> segment" where
  "scene sid text =
     Meso \<lparr>meso_id = sid, meso_chapter = ''ch1'', meso_start_char = 0,
           meso_end_char = int (length text), meso_text = text, micro_ids = [sid @ ''_s0''],
           scene_type = Some ''transition'', meso_embedding_id = None\<rparr>"

definition example_recogniser :: recogniser where
  "example_recogniser text =
     (if text = ''Tom Oz''
      then [\<lparr>label = ''PERSON'', ent_text = ''Tom'', ent_start_char = 0\<rparr>,
            \<lparr>label = ''LOC'', ent_text = ''Oz'', ent_start_char = 4\<rparr>]
      else if text = ''Oz Tom''
      then [\<lparr>label = ''LOC'', ent_text = ''Oz'', ent_start_char = 0\<rparr>,
            \<lparr>label = ''PERSON'', ent_text = ''Tom'', ent_start_char = 3\<rparr>]
      else if text = ''Tom Tom''
      then [\<lparr>label = ''PERSON'', ent_text = ''Tom'', ent_start_char = 0\<rparr>,
            \<lparr>label = ''PERSON'', ent_text = ''Tom'', ent_start_char = 4\<rparr>]
      else [])"

definition first_scene :: segment where
  "first_scene = scene ''meso_ch1_0'' ''Tom Oz''"

definition second_scene :: segment where
  "second_scene = scene ''meso_ch1_1'' ''Oz Tom''"

definition twin_scene :: segment where
  "twin_scene = scene ''meso_ch1_2'' ''Tom Tom''"

definition graph_after_first_scene :: GraphManager where
  "graph_after_first_scene =
     update_graph example_recogniser (new_graph_manager empty_db) first_scene ''meso''"

definition example_env :: collaborators where
  "example_env =
     \<lparr>nlp = example_recogniser,
      encode = (\<lambda>text. [1]),
      index_search = (\<lambda>index q k. map (\<lambda>i. (1, int i)) [0..<min (nat k) (length index)])\<rparr>"

definition stored_micro_index :: "string \<rightharpoonup> faiss_index" where
  "stored_micro_index = [''micro_faiss.index'' \<mapsto> [[1], [0], [-1]]]"

definition graph_with_two_toms :: graph_db where
  "graph_with_two_toms =
     \<lparr>nodes =
        [\<lparr>n_node_id = ''character_tom_2'', n_node_type = ''character'',
          n_canonical_name = ''Tom'',
          n_attributes = JsonText (JObj [(''status'', JStr ''alive'')]),
          n_frequency = 1, n_centrality = None\<rparr>,
         \<lparr>n_node_id = ''character_tom_1'', n_node_type = ''character'',
          n_canonical_name = ''Tom'',
          n_attributes = JsonText (JObj [(''status'', JStr ''dead'')]),
          n_frequency = 1, n_centrality = None\<rparr>],
      edges = [],
      segment_nodes =
        [\<lparr>l_segment_id = ''meso_ch2_0'', l_node_id = ''character_tom_2'',
          l_segment_scale = ''meso'', l_confidence = 1\<rparr>,
         \<lparr>l_segment_id = ''meso_ch1_0'', l_node_id = ''character_tom_1'',
          l_segment_scale = ''meso'', l_confidence = 1\<rparr>]\<rparr>"

section \<open>Properties\<close>

lemmas char_eval = char_of_def bit_Suc_0_iff

subsection \<open>Canonical names\<close>

lemma str_lower_canonical_values:
  "str_lower ''Thomas'' = ''thomas''"
  "str_lower ''Robert'' = ''robert''"
  "str_lower ''Miranda'' = ''miranda''"
  by (simp_all add: str_lower_def lower_char_def char_eval)

lemma alias_values:
  assumes "map_of load_character_aliases k = Some v"
  shows "v = ''Thomas'' \<or> v = ''Robert'' \<or> v = ''Miranda''"
  using assms by (auto simp: load_character_aliases_def split: if_splits)

lemma canonicalize_fixes_alias_values:
  assumes "v = ''Thomas'' \<or> v = ''Robert'' \<or> v = ''Miranda''"
  shows "canonicalize load_character_aliases v ''character'' = v"
  using assms
  by (auto simp: canonicalize_def str_lower_canonical_values load_character_aliases_def)

text \<open>
  Claim C10. With the built-in alias table, canonicalising a character name twice gives
  the same result as canonicalising it once, and for every node type other than
  \<open>character\<close> the name is returned unchanged.
\<close>

theorem canonicalize_idempotent:
  "canonicalize load_character_aliases
     (canonicalize load_character_aliases name ''character'') ''character''
   = canonicalize load_character_aliases name ''character''
   \<and> (ntype \<noteq> ''character'' \<longrightarrow> canonicalize load_character_aliases name ntype = name)"
proof -
  have idem: "canonicalize load_character_aliases
     (canonicalize load_character_aliases name ''character'') ''character''
   = canonicalize load_character_aliases name ''character''"
  proof (cases "map_of load_character_aliases (str_lower name)")
    case None
    then show ?thesis by (simp add: canonicalize_def)
  next
    case (Some v)
    then have r: "canonicalize load_character_aliases name ''character'' = v"
      by (simp add: canonicalize_def)
    from Some have "v = ''Thomas'' \<or> v = ''Robert'' \<or> v = ''Miranda''"
      by (rule alias_values)
    then show ?thesis
      unfolding r by (rule canonicalize_fixes_alias_values)
  qed
  have other: "ntype \<noteq> ''character'' \<longrightarrow> canonicalize load_character_aliases name ntype = name"
    by (simp add: canonicalize_def)
  from idem other show ?thesis by simp
qed

theorem canonicalize_idempotent_witness:
  "canonicalize load_character_aliases ''TOMMY'' ''character'' = ''Thomas''
   \<and> canonicalize load_character_aliases
        (canonicalize load_character_aliases ''TOMMY'' ''character'') ''character'' = ''Thomas''
   \<and> ''setting'' \<noteq> ''character''
   \<and> canonicalize load_character_aliases ''TOMMY'' ''setting'' = ''TOMMY''"
proof -
  have ev: "canonicalize load_character_aliases ''TOMMY'' ''character'' = ''Thomas''"
    by (simp add: canonicalize_def str_lower_def lower_char_def char_eval
        load_character_aliases_def)
  have ne: "''setting'' \<noteq> ''character''" by simp
  from canonicalize_idempotent [of "''TOMMY''" "''setting''"] ev ne
  show ?thesis by simp
qed

subsection \<open>Scene types\<close>

lemma dialogue_ratio_threshold:
  "(dialogue_ratio text > 5 / 100)
   = (20 * length (filter is_quote text) > max (length text) 1)"
proof -
  let ?q = "length (filter is_quote text)"
  let ?m = "max (length text) 1"
  have pos: "(0::rat) < of_nat ?m" by simp
  have "(dialogue_ratio text > 5 / 100) = ((1::rat) / 20 < of_nat ?q / of_nat ?m)"
    by (simp add: dialogue_ratio_def)
  also have "\<dots> = ((of_nat ?m :: rat) < 20 * of_nat ?q)"
    using pos by (simp add: field_simps)
  also have "\<dots> = ((of_nat ?m :: rat) < of_nat (20 * ?q))"
    by simp
  also have "\<dots> = (?m < 20 * ?q)"
    by (simp only: of_nat_less_iff)
  finally show ?thesis .
qed

text \<open>
  Claim C6, amended. \<open>classify_scene_type\<close> returns, in strict priority order:
  \<open>dialogue\<close> when the quote marks are more than 0.05 of the characters; otherwise
  \<open>action\<close> when the text has more than 5 (at least 6) action-verb hits; otherwise
  \<open>transition\<close> when the text is shorter than 500 characters; otherwise
  \<open>description\<close>.
\<close>

theorem classify_scene_type_priority:
  "classify_scene_type text =
     (if 20 * length (filter is_quote text) > max (length text) 1 then ''dialogue''
      else if 6 \<le> length (re_findall_words action_verbs text) then ''action''
      else if length text < 500 then ''transition''
      else ''description'')"
proof -
  have six: "(action_words text > 5) = (6 \<le> length (re_findall_words action_verbs text))"
    by (auto simp: action_words_def)
  show ?thesis
    unfolding classify_scene_type_def dialogue_ratio_threshold six ..
qed

text \<open>
  Claim C6 as stated fails: a text with exactly 5 action-verb hits, no quote mark and
  fewer than 500 characters is classified \<open>transition\<close>, not \<open>action\<close>.
\<close>

theorem classify_five_hits_counterexample:
  "length (re_findall_words action_verbs ''ran ran ran ran ran'') = 5
   \<and> \<not> dialogue_ratio ''ran ran ran ran ran'' > 5 / 100
   \<and> classify_scene_type ''ran ran ran ran ran'' = ''transition''
   \<and> classify_scene_type ''ran ran ran ran ran''
       \<noteq> (if dialogue_ratio ''ran ran ran ran ran'' > 5 / 100 then ''dialogue''
          else if 5 \<le> length (re_findall_words action_verbs ''ran ran ran ran ran'')
               then ''action''
          else if length ''ran ran ran ran ran'' < 500 then ''transition''
          else ''description'')"
proof -
  have hits: "re_findall_words action_verbs ''ran ran ran ran ran''
              = [''ran'', ''ran'', ''ran'', ''ran'', ''ran'']"
    by code_simp
  have ratio: "dialogue_ratio ''ran ran ran ran ran'' = 0"
    by (simp add: dialogue_ratio_def is_quote_def)
  have cls: "classify_scene_type ''ran ran ran ran ran'' = ''transition''"
    by (simp add: classify_scene_type_def ratio action_words_def hits)
  show ?thesis
    by (simp add: hits ratio cls)
qed

subsection \<open>Scene windows\<close>

lemma scene_window_at_most_one:
  "length (scene_window text chapter micro_segments scene_breaks i) \<le> Suc 0"
  by (simp add: scene_window_def Let_def)

text \<open>
  With exactly two break offsets the loop over \<open>range(len(scene_breaks) - 1)\<close> runs
  once: whatever the text, at most one meso segment is returned.
\<close>

lemma two_breaks_give_at_most_one_segment:
  assumes "length (detect_scene_breaks ner text) = 2"
  shows "\<exists>segs. create_meso_segments self ner text chapter micro_segments = Inr segs
           \<and> length segs \<le> 1"
proof -
  have "[0..<Suc 0] = [0]" by simp
  then show ?thesis
    using assms
    by (simp add: create_meso_segments_def Let_def scene_window_at_most_one)
qed

text \<open>
  Claim C1. A chapter text with one \<open>***\<close> marker, for which \<open>detect_scene_breaks\<close>
  finds exactly the two offsets 0 and 8, and one micro segment on each side of the
  marker: \<open>create_meso_segments\<close> returns one meso segment, the window \<open>[0, 8]\<close> with
  the first micro segment; the text after the marker and its micro segment are in no
  meso segment, where the claim has two segments covering both.
\<close>

theorem create_meso_segments_drops_last_scene:
  "detect_scene_breaks no_entities two_scene_text = [0, 8]
   \<and> create_meso_segments default_segmenter no_entities two_scene_text ''ch1''
       [micro_before, micro_after]
     = Inr [\<lparr>meso_id = ''meso_ch1_0'', meso_chapter = ''ch1'', meso_start_char = 0,
             meso_end_char = 8, meso_text = ''Tom ran.'', micro_ids = [''ch1_s0''],
             scene_type = Some ''transition'', meso_embedding_id = None\<rparr>]"
  by code_simp

subsection \<open>Continuity\<close>

text \<open>
  Claim C4. When the rows of a character, in segment-id order, are a row of segment A
  whose attributes have status \<open>dead\<close> followed by a row of segment B whose attributes
  have status \<open>alive\<close>, \<open>find_continuity_violations\<close> returns exactly one violation,
  of type \<open>resurrection\<close>, naming segment B.
\<close>

theorem resurrection_flagged_once:
  assumes "continuity_rows (conn self) character
             = [(seg_a, scale_a, JsonText (JObj attrs_a)),
                (seg_b, scale_b, JsonText (JObj attrs_b))]"
    and "map_of attrs_a ''status'' = Some (JStr ''dead'')"
    and "map_of attrs_b ''status'' = Some (JStr ''alive'')"
  shows "find_continuity_violations self character
           = Inr [\<lparr>v_type = ''resurrection'', v_character = character, v_segment = seg_b,
                   v_details = ''Character appears alive after being dead''\<rparr>]"
proof -
  from assms(2) have ne: "attrs_a \<noteq> []" by auto
  show ?thesis
    using assms ne
    by (simp add: find_continuity_violations_def load_attributes_def is_resurrection_def)
qed

theorem resurrection_flagged_once_witness:
  "continuity_rows (conn (new_graph_manager graph_with_two_toms)) ''Tom''
     = [(''meso_ch1_0'', ''meso'', JsonText (JObj [(''status'', JStr ''dead'')])),
        (''meso_ch2_0'', ''meso'', JsonText (JObj [(''status'', JStr ''alive'')]))]
   \<and> map_of [(''status'', JStr ''dead'')] ''status'' = Some (JStr ''dead'')
   \<and> map_of [(''status'', JStr ''alive'')] ''status'' = Some (JStr ''alive'')
   \<and> find_continuity_violations (new_graph_manager graph_with_two_toms) ''Tom''
     = Inr [\<lparr>v_type = ''resurrection'', v_character = ''Tom'', v_segment = ''meso_ch2_0'',
             v_details = ''Character appears alive after being dead''\<rparr>]"
proof -
  have rows: "continuity_rows (conn (new_graph_manager graph_with_two_toms)) ''Tom''
     = [(''meso_ch1_0'', ''meso'', JsonText (JObj [(''status'', JStr ''dead'')])),
        (''meso_ch2_0'', ''meso'', JsonText (JObj [(''status'', JStr ''alive'')]))]"
    by code_simp
  have a: "map_of [(''status'', JStr ''dead'')] ''status'' = Some (JStr ''dead'')" by simp
  have b: "map_of [(''status'', JStr ''alive'')] ''status'' = Some (JStr ''alive'')" by simp
  from resurrection_flagged_once [OF rows a b] rows a b show ?thesis by simp
qed

subsection \<open>Queries\<close>





subsection \<open>Index and metadata\<close>

text \<open>
  A call of \<open>index_segments\<close> that returns adds as many vectors to the index of the
  scale as records to its metadata, one for each segment.
\<close>

lemma index_segments_appends_equally:
  assumes "index_segments env self segments scale = (self', None)"
  shows "map_option length (indices self' scale)
           = Some ((case indices self scale of
                      Some index \<Rightarrow> length index
                    | None \<Rightarrow> (case load_or_create_index self scale of
                                 Inr index \<Rightarrow> length index | Inl e \<Rightarrow> 0))
                   + length segments)
         \<and> map_option length (metadata self' scale)
           = Some ((case metadata self scale of Some m \<Rightarrow> length m | None \<Rightarrow> 0)
                   + length segments)"
  using assms
  by (auto simp: index_segments_def Let_def split: option.splits sum.splits if_splits)

text \<open>
  Claim C3. A retriever created while \<open>micro_faiss.index\<close> holds three vectors, then
  one call of \<open>index_segments\<close> with one micro segment: the index of the scale is the
  loaded one plus one vector, \<open>ntotal = 4\<close>, while the metadata of the scale starts
  empty and has one record. The two lengths differ, where the claim has them equal at
  every point, also right after the load of a persisted index.
\<close>

theorem index_segments_after_reload:
  "map_option length
     (indices (fst (index_segments example_env
                      (new_retriever stored_micro_index Map.empty empty_db)
                      [Micro micro_before] ''micro'')) ''micro'') = Some 4
   \<and> map_option length
     (metadata (fst (index_segments example_env
                      (new_retriever stored_micro_index Map.empty empty_db)
                      [Micro micro_before] ''micro'')) ''micro'') = Some 1
   \<and> snd (index_segments example_env
                      (new_retriever stored_micro_index Map.empty empty_db)
                      [Micro micro_before] ''micro'') = None"
  by code_simp

subsection \<open>Retrieval\<close>

lemma scale_candidates_scale:
  assumes "r \<in> set (scale_candidates env self query q_emb k sw)"
  shows "r_scale r = fst sw \<and> fst sw \<in> dom (indices self)"
proof (cases "indices self (fst sw)")
  case None
  with assms show ?thesis
    by (simp add: scale_candidates_def Let_def split: if_splits)
next
  case (Some index)
  with assms show ?thesis
    by (auto simp: scale_candidates_def Let_def split: if_splits)
qed

lemma py_prefix_subset: "set (py_prefix xs k) \<subseteq> set xs"
  by (simp add: py_prefix_def set_take_subset)

lemma fractal_retrieve_scales:
  assumes "r \<in> set (fractal_retrieve env self query k scale_weights policy)"
  shows "r_scale r \<in> dom (indices self)"
proof -
  from assms py_prefix_subset
  have "r \<in> set (concat (map (scale_candidates env self query (encode env query) k)
                            (effective_weights policy scale_weights)))"
    by (fastforce simp: fractal_retrieve_def Let_def)
  then obtain sw where "r \<in> set (scale_candidates env self query (encode env query) k sw)"
    by auto
  then have "r_scale r = fst sw \<and> fst sw \<in> dom (indices self)"
    by (rule scale_candidates_scale)
  then show ?thesis by simp
qed

lemma index_segments_dom:
  "dom (indices (fst (index_segments env self segments scale)))
     \<subseteq> insert scale (dom (indices self))"
  by (auto simp: index_segments_def Let_def split: option.splits sum.splits if_splits)

lemma run_index_calls_dom:
  "dom (indices (run_index_calls env self calls)) \<subseteq> dom (indices self) \<union> snd ` set calls"
proof (induction calls arbitrary: self)
  case Nil
  then show ?case by simp
next
  case (Cons c cs)
  have "dom (indices (run_index_calls env (fst (index_segments env self (fst c) (snd c))) cs))
          \<subseteq> dom (indices (fst (index_segments env self (fst c) (snd c)))) \<union> snd ` set cs"
    by (rule Cons.IH)
  also have "\<dots> \<subseteq> insert (snd c) (dom (indices self)) \<union> snd ` set cs"
    using index_segments_dom [of env self "fst c" "snd c"] by blast
  finally show ?case by auto
qed

lemma fresh_retriever_no_candidates:
  "fractal_retrieve env (new_retriever files meta_files db) query k scale_weights policy = []"
proof -
  have none: "scale_candidates env (new_retriever files meta_files db) query q k sw = []"
    for q sw
    by (simp add: scale_candidates_def new_retriever_def Let_def)
  have results: "concat (map (scale_candidates env (new_retriever files meta_files db) query
                       (encode env query) k)
                  (effective_weights policy scale_weights)) = []"
    by (simp add: none)
  show ?thesis
    unfolding fractal_retrieve_def Let_def results
    by (simp add: py_prefix_def)
qed

text \<open>
  Claim C9. On a freshly constructed retriever \<open>fractal_retrieve\<close> returns the empty
  list, whatever index files exist; and after any series of \<open>index_segments\<close> calls
  on a fresh retriever, every candidate \<open>fractal_retrieve\<close> returns has a scale for
  which \<open>index_segments\<close> was called before.
\<close>

theorem candidates_need_index_segments:
  "fractal_retrieve env (new_retriever files meta_files db) query k scale_weights policy = []
   \<and> (r \<in> set (fractal_retrieve env
                   (run_index_calls env (new_retriever files meta_files db) calls)
                   query k scale_weights policy)
        \<longrightarrow> r_scale r \<in> snd ` set calls)"
proof -
  have "r_scale r \<in> snd ` set calls"
    if "r \<in> set (fractal_retrieve env
                   (run_index_calls env (new_retriever files meta_files db) calls)
                   query k scale_weights policy)"
  proof -
    from that have "r_scale r \<in> dom (indices (run_index_calls env (new_retriever files meta_files db) calls))"
      by (rule fractal_retrieve_scales)
    with run_index_calls_dom [of env "new_retriever files meta_files db" calls]
    show ?thesis by (auto simp: new_retriever_def)
  qed
  with fresh_retriever_no_candidates show ?thesis by blast
qed

lemma example_retrieval:
  "fractal_retrieve example_env
     (run_index_calls example_env (new_retriever stored_micro_index Map.empty empty_db)
        [([Micro micro_before], ''micro'')])
     ''Tom'' 10 None None
   = [\<lparr>r_scale = ''micro'', r_score = 1,
       r_segment = Micro (micro_before\<lparr>micro_embedding_id := Some 3\<rparr>),
       r_graph_boost = 0, r_context_boost = 0\<rparr>]"
  by code_simp

theorem candidates_need_index_segments_witness:
  "fractal_retrieve example_env (new_retriever stored_micro_index Map.empty empty_db)
     ''Tom'' 10 None None = []
   \<and> \<lparr>r_scale = ''micro'', r_score = 1,
       r_segment = Micro (micro_before\<lparr>micro_embedding_id := Some 3\<rparr>),
       r_graph_boost = 0, r_context_boost = 0\<rparr>
     \<in> set (fractal_retrieve example_env
              (run_index_calls example_env
                 (new_retriever stored_micro_index Map.empty empty_db)
                 [([Micro micro_before], ''micro'')])
              ''Tom'' 10 None None)
   \<and> ''micro'' \<in> snd ` set [([Micro micro_before], ''micro'')]"
  using candidates_need_index_segments
          [of example_env stored_micro_index Map.empty empty_db "''Tom''" 10 None None
              "\<lparr>r_scale = ''micro'', r_score = 1,
                r_segment = Micro (micro_before\<lparr>micro_embedding_id := Some 3\<rparr>),
                r_graph_boost = 0, r_context_boost = 0\<rparr>"
              "[([Micro micro_before], ''micro'')]"]
    example_retrieval
  by simp

subsection \<open>Retrieval weights\<close>

lemma line_fix_loop:
  "concat (map (scale_candidates env self query q_emb k)
             [(''micro'', 9 / 10), (''meso'', 1 / 10), (''macro'', 0)])
   = scale_candidates env self query q_emb k (''micro'', 9 / 10)
     @ scale_candidates env self query q_emb k (''meso'', 1 / 10)"
  by (simp add: scale_candidates_def)

text \<open>
  Claim C5. Whatever \<open>k\<close> and whatever weights are passed (none included), a call of
  \<open>fractal_retrieve\<close> with the policy \<open>line-fix\<close> returns the sorted and cut
  candidates of the scale loop run with micro 0.9 and meso 0.1, the pass for macro with
  weight 0.0 adding nothing, so every result is of scale micro or meso; with neither
  policy nor weights it returns the sorted and cut candidates of the scale loop run
  with micro 1.0, meso 0.6 and macro 0.3.
\<close>

theorem line_fix_overrides_weights:
  "fractal_retrieve env self query k scale_weights (Some ''line-fix'')
     = py_prefix
         (sort_key (\<lambda>r. - r_score r)
            (scale_candidates env self query (encode env query) k (''micro'', 9 / 10)
             @ scale_candidates env self query (encode env query) k (''meso'', 1 / 10))) k
   \<and> list_all (\<lambda>r. r_scale r = ''micro'' \<or> r_scale r = ''meso'')
       (fractal_retrieve env self query k scale_weights (Some ''line-fix''))
   \<and> fractal_retrieve env self query k None None
     = py_prefix
         (sort_key (\<lambda>r. - r_score r)
            (concat (map (scale_candidates env self query (encode env query) k)
                       [(''micro'', 1), (''meso'', 6 / 10), (''macro'', 3 / 10)]))) k
   \<and> effective_weights (Some ''line-fix'') scale_weights
     = [(''micro'', 9 / 10), (''meso'', 1 / 10), (''macro'', 0)]
   \<and> effective_weights None None = [(''micro'', 1), (''meso'', 6 / 10), (''macro'', 3 / 10)]"
proof -
  have w: "effective_weights (Some ''line-fix'') scale_weights
             = [(''micro'', 9 / 10), (''meso'', 1 / 10), (''macro'', 0)]"
    by (simp add: effective_weights_def)
  have d: "effective_weights None None = [(''micro'', 1), (''meso'', 6 / 10), (''macro'', 3 / 10)]"
    by (simp add: effective_weights_def default_weights_def)
  have a: "fractal_retrieve env self query k scale_weights (Some ''line-fix'')
     = py_prefix
         (sort_key (\<lambda>r. - r_score r)
            (scale_candidates env self query (encode env query) k (''micro'', 9 / 10)
             @ scale_candidates env self query (encode env query) k (''meso'', 1 / 10))) k"
    unfolding fractal_retrieve_def Let_def w line_fix_loop ..
  have b: "fractal_retrieve env self query k None None
     = py_prefix
         (sort_key (\<lambda>r. - r_score r)
            (concat (map (scale_candidates env self query (encode env query) k)
                       [(''micro'', 1), (''meso'', 6 / 10), (''macro'', 3 / 10)]))) k"
    unfolding fractal_retrieve_def Let_def d ..
  have "r_scale r = ''micro'' \<or> r_scale r = ''meso''"
    if "r \<in> set (fractal_retrieve env self query k scale_weights (Some ''line-fix''))" for r
  proof -
    from that py_prefix_subset
    have "r \<in> set (scale_candidates env self query (encode env query) k (''micro'', 9 / 10))
          \<or> r \<in> set (scale_candidates env self query (encode env query) k (''meso'', 1 / 10))"
      unfolding a by fastforce
    then show ?thesis
      using scale_candidates_scale by fastforce
  qed
  then have c: "list_all (\<lambda>r. r_scale r = ''micro'' \<or> r_scale r = ''meso'')
       (fractal_retrieve env self query k scale_weights (Some ''line-fix''))"
    by (simp add: list_all_iff)
  from a c b w d show ?thesis by blast
qed

subsection \<open>Node upserts\<close>

lemma node_frequency_bump:
  "node_frequency
     (map (\<lambda>r. if n_node_id r = k then r\<lparr>n_frequency := n_frequency r + 1\<rparr> else r) rows) nid
   = node_frequency rows nid + (if nid = k \<and> k \<in> set (map n_node_id rows) then 1 else 0)"
  by (induction rows) (auto simp: node_frequency_def)

lemma node_frequency_append:
  "node_frequency (rows @ [new]) nid
   = (if nid \<in> set (map n_node_id rows) then node_frequency rows nid
      else if n_node_id new = nid then n_frequency new else 0)"
  by (induction rows) (auto simp: node_frequency_def)

lemma node_frequency_absent:
  "nid \<notin> set (map n_node_id rows) \<Longrightarrow> node_frequency rows nid = 0"
  by (induction rows) (auto simp: node_frequency_def)

lemma node_frequency_upsert:
  "node_frequency (upsert_node rows e) nid
   = node_frequency rows nid + (if nid = node_id e then 1 else 0)"
  by (auto simp: upsert_node_def node_frequency_bump node_frequency_append
      node_frequency_absent)

lemma node_ids_upsert:
  "map n_node_id (upsert_node rows e)
   = (if node_id e \<in> set (map n_node_id rows) then map n_node_id rows
      else map n_node_id rows @ [node_id e])"
proof -
  have "map n_node_id
          (map (\<lambda>r. if n_node_id r = k then r\<lparr>n_frequency := n_frequency r + 1\<rparr> else r) rows)
        = map n_node_id rows" for k
    by (induction rows) auto
  then show ?thesis
    by (simp add: upsert_node_def)
qed

lemma distinct_upsert_node:
  "distinct (map n_node_id rows) \<Longrightarrow> distinct (map n_node_id (upsert_node rows e))"
  by (simp add: node_ids_upsert)

lemma nodes_upsert_entities:
  "nodes (upsert_entities db seg scale es) = fold (\<lambda>e rows. upsert_node rows e) es (nodes db)"
  by (induction es arbitrary: db) simp_all

lemma edges_upsert_entities:
  "edges (upsert_entities db seg scale es) = edges db"
  by (induction es arbitrary: db) simp_all

lemma node_frequency_fold:
  "node_frequency (fold (\<lambda>e rows. upsert_node rows e) es rows) nid
   = node_frequency rows nid + int (count_list (map node_id es) nid)"
  by (induction es arbitrary: rows) (auto simp: node_frequency_upsert)

lemma distinct_fold_upsert:
  "distinct (map n_node_id rows)
   \<Longrightarrow> distinct (map n_node_id (fold (\<lambda>e rows. upsert_node rows e) es rows))"
  by (induction es arbitrary: rows) (auto simp: distinct_upsert_node)

lemma node_frequency_centrality:
  "node_frequency (map (\<lambda>n. n\<lparr>n_centrality := f n\<rparr>) rows) nid = node_frequency rows nid"
  by (induction rows) (auto simp: node_frequency_def)

lemma node_ids_centrality:
  "map n_node_id (map (\<lambda>n. n\<lparr>n_centrality := f n\<rparr>) rows) = map n_node_id rows"
  by (induction rows) auto

lemma nodes_update_graph:
  "nodes (conn (update_graph ner self segment scale))
   = map (\<lambda>n. n\<lparr>n_centrality :=
                   Some (of_nat (degree (edges (conn (update_graph ner self segment scale)))
                                   (n_node_id n)))\<rparr>)
       (fold (\<lambda>e rows. upsert_node rows e)
          (extract_entities ner self (seg_text segment) (seg_id segment) scale)
          (nodes (conn self)))"
  by (simp add: update_graph_def update_centrality_def Let_def nodes_upsert_entities)

lemma motif_slugs:
  "list_all (\<lambda>m. replace_space (str_lower (fst m)) = fst m) motif_patterns"
  by (simp add: motif_patterns_def replace_space_def str_lower_def lower_char_def)

lemma extracted_node_ids:
  "list_all (\<lambda>e. node_id e = node_type e @ ''_'' @ replace_space (str_lower (canonical_name e)))
     (extract_entities ner self text seg scale)"
proof -
  have "node_id (motif_node m) = node_type (motif_node m) @ ''_''
          @ replace_space (str_lower (canonical_name (motif_node m)))"
    if "m \<in> set motif_patterns" for m
    using that motif_slugs by (auto simp: motif_node_def list_all_iff)
  then show ?thesis
    by (auto simp: extract_entities_def list_all_iff entity_node_def Let_def)
qed

lemma distinct_nodes_update_graph:
  "distinct (map n_node_id (nodes (conn self)))
   \<Longrightarrow> distinct (map n_node_id (nodes (conn (update_graph ner self segment scale))))"
  unfolding nodes_update_graph node_ids_centrality
  by (rule distinct_fold_upsert)

lemma stored_frequency_update_graph:
  "stored_frequency (conn (update_graph ner self segment scale)) nid
   = stored_frequency (conn self) nid
     + int (count_list (extracted_ids ner self segment scale) nid)"
  unfolding stored_frequency_def nodes_update_graph node_frequency_centrality
  by (simp add: node_frequency_fold extracted_ids_def)

subsection \<open>Edge upserts\<close>

lemma edge_weight_bump:
  "edge_weight (map (\<lambda>r. if e_edge_id r = k then r\<lparr>e_weight := e_weight r + 1\<rparr> else r) rows) eid
   = edge_weight rows eid + (if eid = k \<and> k \<in> set (map e_edge_id rows) then 1 else 0)"
  by (induction rows) (auto simp: edge_weight_def)

lemma edge_weight_append:
  "edge_weight (rows @ [new]) eid
   = (if eid \<in> set (map e_edge_id rows) then edge_weight rows eid
      else if e_edge_id new = eid then e_weight new else 0)"
  by (induction rows) (auto simp: edge_weight_def)

lemma edge_weight_absent:
  "eid \<notin> set (map e_edge_id rows) \<Longrightarrow> edge_weight rows eid = 0"
  by (induction rows) (auto simp: edge_weight_def)

lemma edge_weight_upsert:
  "edge_weight (upsert_edge seg scale rows p) eid
   = edge_weight rows eid + (if eid = cooccur_id p then 1 else 0)"
  by (auto simp: upsert_edge_def edge_weight_bump edge_weight_append edge_weight_absent)

lemma edge_ids_upsert:
  "map e_edge_id (upsert_edge seg scale rows p)
   = (if cooccur_id p \<in> set (map e_edge_id rows) then map e_edge_id rows
      else map e_edge_id rows @ [cooccur_id p])"
proof -
  have "map e_edge_id
          (map (\<lambda>r. if e_edge_id r = k then r\<lparr>e_weight := e_weight r + 1\<rparr> else r) rows)
        = map e_edge_id rows" for k
    by (induction rows) auto
  then show ?thesis
    by (simp add: upsert_edge_def)
qed

lemma edge_weight_fold:
  "edge_weight (fold (\<lambda>p rows. upsert_edge seg scale rows p) ps rows) eid
   = edge_weight rows eid + of_nat (count_list (map cooccur_id ps) eid)"
  by (induction ps arbitrary: rows) (auto simp: edge_weight_upsert)

lemma distinct_fold_upsert_edge:
  "distinct (map e_edge_id rows)
   \<Longrightarrow> distinct (map e_edge_id (fold (\<lambda>p rows. upsert_edge seg scale rows p) ps rows))"
  by (induction ps arbitrary: rows) (auto simp: edge_ids_upsert)

lemma rows_ok_upsert:
  "list_all cooccurrence_row rows \<Longrightarrow> list_all cooccurrence_row (upsert_edge seg scale rows p)"
  by (auto simp: upsert_edge_def list_all_iff cooccurrence_row_def cooccur_id_def)

lemma rows_ok_fold:
  "list_all cooccurrence_row rows
   \<Longrightarrow> list_all cooccurrence_row (fold (\<lambda>p rows. upsert_edge seg scale rows p) ps rows)"
  by (induction ps arbitrary: rows) (auto simp: rows_ok_upsert)

lemma edges_update_graph:
  "edges (conn (update_graph ner self segment scale))
   = fold (\<lambda>p rows. upsert_edge (seg_id segment) scale rows p)
       (index_pairs (extracted_ids ner self segment scale)) (edges (conn self))"
  by (simp add: update_graph_def update_centrality_def Let_def edges_upsert_entities
      extracted_ids_def)

lemma aliases_update_graph:
  "character_aliases (update_graph ner self segment scale) = character_aliases self"
  by (simp add: update_graph_def Let_def)

lemma extracted_ids_aliases:
  "character_aliases a = character_aliases b
   \<Longrightarrow> extracted_ids ner a segment scale = extracted_ids ner b segment scale"
  by (simp add: extracted_ids_def extract_entities_def)

lemma count_list_app: "count_list (xs @ ys) a = count_list xs a + count_list ys a"
  by (induction xs) auto

lemma update_graph_all_Nil: "update_graph_all ner self [] scale = self"
  by (simp add: update_graph_all_def)

lemma update_graph_all_Cons:
  "update_graph_all ner self (seg # segs) scale
   = update_graph_all ner (update_graph ner self seg scale) segs scale"
  by (simp add: update_graph_all_def)

lemma distinct_edges_update_graph:
  "distinct (map e_edge_id (edges (conn self)))
   \<Longrightarrow> distinct (map e_edge_id (edges (conn (update_graph ner self segment scale))))"
  by (simp add: edges_update_graph distinct_fold_upsert_edge)

lemma distinct_edges_update_graph_all:
  "distinct (map e_edge_id (edges (conn self)))
   \<Longrightarrow> distinct (map e_edge_id (edges (conn (update_graph_all ner self segments scale))))"
proof (induction segments arbitrary: self)
  case Nil
  then show ?case by (simp add: update_graph_all_Nil)
next
  case (Cons seg segs)
  from Cons.prems have "distinct (map e_edge_id (edges (conn (update_graph ner self seg scale))))"
    by (rule distinct_edges_update_graph)
  then show ?case
    unfolding update_graph_all_Cons by (rule Cons.IH)
qed

lemma rows_ok_update_graph_all:
  "list_all cooccurrence_row (edges (conn self))
   \<Longrightarrow> list_all cooccurrence_row (edges (conn (update_graph_all ner self segments scale)))"
proof (induction segments arbitrary: self)
  case Nil
  then show ?case by (simp add: update_graph_all_Nil)
next
  case (Cons seg segs)
  from Cons.prems have "list_all cooccurrence_row (edges (conn (update_graph ner self seg scale)))"
    by (simp add: edges_update_graph rows_ok_fold)
  then show ?case
    unfolding update_graph_all_Cons by (rule Cons.IH)
qed

lemma stored_weight_update_graph:
  "stored_weight (conn (update_graph ner self segment scale)) eid
   = stored_weight (conn self) eid
     + of_nat (count_list (map cooccur_id (index_pairs (extracted_ids ner self segment scale)))
                 eid)"
  by (simp add: stored_weight_def edges_update_graph edge_weight_fold)

lemma stored_weight_update_graph_all:
  "stored_weight (conn (update_graph_all ner self segments scale)) eid
   = stored_weight (conn self) eid
     + of_nat (count_list
                 (concat (map (\<lambda>seg. map cooccur_id
                                        (index_pairs (extracted_ids ner self seg scale)))
                            segments)) eid)"
proof (induction segments arbitrary: self)
  case Nil
  show ?case by (simp add: update_graph_all_Nil)
next
  case (Cons seg segs)
  have ids: "extracted_ids ner (update_graph ner self seg scale) s scale
             = extracted_ids ner self s scale" for s
    by (rule extracted_ids_aliases) (rule aliases_update_graph)
  show ?case
    unfolding update_graph_all_Cons Cons.IH ids stored_weight_update_graph
    by (simp add: count_list_app)
qed

subsection \<open>The example scenes\<close>

lemma ids_first_scene:
  "extracted_ids example_recogniser (new_graph_manager empty_db) first_scene ''meso''
   = [''character_thomas'', ''setting_oz'']"
  by code_simp

lemma ids_second_scene:
  "extracted_ids example_recogniser (new_graph_manager empty_db) second_scene ''meso''
   = [''setting_oz'', ''character_thomas'']"
  by code_simp

lemma ids_twin_scene:
  "extracted_ids example_recogniser (new_graph_manager empty_db) twin_scene ''meso''
   = [''character_thomas'', ''character_thomas'']"
  by code_simp

lemma ids_after_first_scene:
  "extracted_ids example_recogniser graph_after_first_scene segment scale
   = extracted_ids example_recogniser (new_graph_manager empty_db) segment scale"
  unfolding graph_after_first_scene_def
  by (rule extracted_ids_aliases) (rule aliases_update_graph)

lemma empty_graph_manager:
  "nodes (conn (new_graph_manager empty_db)) = []"
  "edges (conn (new_graph_manager empty_db)) = []"
  by (simp_all add: new_graph_manager_def empty_db_def)

lemma frequency_after_first_scene:
  "stored_frequency (conn graph_after_first_scene) ''character_thomas'' = 1"
  unfolding graph_after_first_scene_def stored_frequency_update_graph ids_first_scene
  by (simp add: stored_frequency_def node_frequency_def empty_graph_manager)

lemma distinct_after_first_scene:
  "distinct (map n_node_id (nodes (conn graph_after_first_scene)))"
  unfolding graph_after_first_scene_def
  by (rule distinct_nodes_update_graph) (simp add: empty_graph_manager)

lemma scene_ids:
  "seg_id first_scene = ''meso_ch1_0''"
  "seg_id second_scene = ''meso_ch1_1''"
  by (simp_all add: first_scene_def second_scene_def scene_def)

subsection \<open>Graph claims\<close>

text \<open>
  Claim C7, amended. A call of \<open>update_graph\<close> raises the stored frequency of a node id
  by the number of entities extracted from the segment that carry this id (by exactly 1
  when the entity is extracted once), and never creates a second node row with the same
  node id; the node id of every extracted entity is its type, an underscore and the
  lower-cased canonical name with spaces replaced.
\<close>

theorem update_graph_frequency:
  assumes "distinct (map n_node_id (nodes (conn self)))"
  shows "distinct (map n_node_id (nodes (conn (update_graph ner self segment scale))))
     \<and> stored_frequency (conn (update_graph ner self segment scale)) nid
       = stored_frequency (conn self) nid
         + int (count_list (extracted_ids ner self segment scale) nid)
     \<and> list_all
         (\<lambda>e. node_id e = node_type e @ ''_'' @ replace_space (str_lower (canonical_name e)))
         (extract_entities ner self (seg_text segment) (seg_id segment) scale)"
  using assms distinct_nodes_update_graph [of self ner segment scale]
    stored_frequency_update_graph [of ner self segment scale nid]
    extracted_node_ids [of ner self "seg_text segment" "seg_id segment" scale]
  by blast

theorem update_graph_frequency_witness:
  "distinct (map n_node_id (nodes (conn graph_after_first_scene)))
   \<and> stored_frequency (conn graph_after_first_scene) ''character_thomas'' = 1
   \<and> stored_frequency
       (conn (update_graph example_recogniser graph_after_first_scene second_scene ''meso''))
       ''character_thomas'' = 2"
  using update_graph_frequency
          [OF distinct_after_first_scene, of example_recogniser second_scene "''meso''"
              "''character_thomas''"]
    distinct_after_first_scene frequency_after_first_scene
  by (simp add: ids_after_first_scene ids_second_scene)

text \<open>
  Claim C7 as stated fails: a segment in which the recogniser finds the same character
  twice raises the stored frequency of the node by 2 in one call of \<open>update_graph\<close>.
\<close>

theorem update_graph_twice_in_one_call_counterexample:
  "''character_thomas''
     \<in> set (extracted_ids example_recogniser graph_after_first_scene twin_scene ''meso'')
   \<and> stored_frequency (conn graph_after_first_scene) ''character_thomas'' = 1
   \<and> stored_frequency
       (conn (update_graph example_recogniser graph_after_first_scene twin_scene ''meso''))
       ''character_thomas'' = 3"
  by (simp add: stored_frequency_update_graph frequency_after_first_scene
      ids_after_first_scene ids_twin_scene)

text \<open>
  Claim C2, amended. The graph holds at most one edge row for an edge id, and the id of
  a co-occurrence edge is the id of the node extracted first, an underscore, the id of
  the node extracted later and the suffix \<open>_cooccur\<close>: it depends on the order of
  extraction. Starting from a graph without edges, after any series of \<open>update_graph\<close>
  calls the weight stored under an edge id is the number of position pairs \<open>i < j\<close>,
  over all processed segments, whose node ids build this id.
\<close>

theorem cooccurrence_weight_counts_ordered_pairs:
  assumes "edges (conn self) = []"
  shows "distinct (map e_edge_id (edges (conn (update_graph_all ner self segments scale))))
     \<and> list_all
         (\<lambda>r. e_edge_id r = e_from_node r @ ''_'' @ e_to_node r @ ''_cooccur''
              \<and> e_edge_type r = ''cooccurrence'')
         (edges (conn (update_graph_all ner self segments scale)))
     \<and> stored_weight (conn (update_graph_all ner self segments scale)) eid
       = of_nat (count_list
                   (concat (map (\<lambda>seg. map cooccur_id
                                          (index_pairs (extracted_ids ner self seg scale)))
                              segments)) eid)"
proof -
  from assms have d: "distinct (map e_edge_id (edges (conn self)))" by simp
  from assms have ok: "list_all cooccurrence_row (edges (conn self))" by simp
  from assms have zero: "stored_weight (conn self) eid = 0"
    by (simp add: stored_weight_def edge_weight_def)
  have rows: "list_all
         (\<lambda>r. e_edge_id r = e_from_node r @ ''_'' @ e_to_node r @ ''_cooccur''
              \<and> e_edge_type r = ''cooccurrence'')
         (edges (conn (update_graph_all ner self segments scale)))"
    using rows_ok_update_graph_all [OF ok, of ner segments scale]
    by (simp add: list_all_iff cooccurrence_row_def)
  have w: "stored_weight (conn (update_graph_all ner self segments scale)) eid
       = of_nat (count_list
                   (concat (map (\<lambda>seg. map cooccur_id
                                          (index_pairs (extracted_ids ner self seg scale)))
                              segments)) eid)"
    unfolding stored_weight_update_graph_all zero by simp
  from distinct_edges_update_graph_all [OF d, of ner segments scale] rows w
  show ?thesis by blast
qed

theorem cooccurrence_weight_counts_ordered_pairs_witness:
  "edges (conn (new_graph_manager empty_db)) = []
   \<and> stored_weight
       (conn (update_graph_all example_recogniser (new_graph_manager empty_db)
                [first_scene, second_scene, first_scene] ''meso''))
       ''character_thomas_setting_oz_cooccur'' = 2"
  using cooccurrence_weight_counts_ordered_pairs
          [OF empty_graph_manager(2), of example_recogniser
              "[first_scene, second_scene, first_scene]" "''meso''"
              "''character_thomas_setting_oz_cooccur''"]
  by (simp add: empty_graph_manager ids_first_scene ids_second_scene cooccur_id_def)

text \<open>
  Claim C2 as stated fails: two segments from which the same two nodes are extracted, in
  opposite orders, leave two co-occurrence edges between the two nodes, each of weight 1.
\<close>

theorem cooccurrence_order_counterexample:
  "extracted_ids example_recogniser (new_graph_manager empty_db) first_scene ''meso''
     = [''character_thomas'', ''setting_oz'']
   \<and> extracted_ids example_recogniser (new_graph_manager empty_db) second_scene ''meso''
     = [''setting_oz'', ''character_thomas'']
   \<and> map (\<lambda>r. (e_edge_id r, e_from_node r, e_to_node r, e_edge_type r, e_weight r))
       (edges (conn (update_graph_all example_recogniser (new_graph_manager empty_db)
                       [first_scene, second_scene] ''meso'')))
     = [(''character_thomas_setting_oz_cooccur'', ''character_thomas'', ''setting_oz'',
         ''cooccurrence'', 1),
        (''setting_oz_character_thomas_cooccur'', ''setting_oz'', ''character_thomas'',
         ''cooccurrence'', 1)]"
proof -
  have second: "extracted_ids example_recogniser
                  (update_graph example_recogniser (new_graph_manager empty_db) first_scene
                     ''meso'')
                  second_scene ''meso''
                = [''setting_oz'', ''character_thomas'']"
    using ids_after_first_scene [of second_scene "''meso''"]
    by (simp add: graph_after_first_scene_def ids_second_scene)
  show ?thesis
    by (simp add: ids_first_scene ids_second_scene update_graph_all_Cons update_graph_all_Nil
        edges_update_graph second empty_graph_manager upsert_edge_def cooccur_id_def scene_ids)
qed

end
